theory Spec2Isabelle
  imports Complex_Main
begin

section \<open>JavaScript values\<close>

text \<open>
  The function \<^verbatim>\<open>guard\<close> of \<^verbatim>\<open>index.js\<close> handles values of four primitive kinds:
  the strings read from \<^verbatim>\<open>process.env\<close>, and the numbers, booleans and strings that
  a schema gives as \<^verbatim>\<open>default\<close> and in \<^verbatim>\<open>oneOf\<close>; a missing
  \<^verbatim>\<open>default\<close> reads as \<^verbatim>\<open>undefined\<close>.

  The expression \<^verbatim>\<open>process.env[key]\<close> is a plain property read. For a variable that
  is not set it continues along the prototype chain, so for a key that names a
  property of \<^verbatim>\<open>Object.prototype\<close> it yields that property's value: a built-in
  function, or for \<^verbatim>\<open>__proto__\<close> the prototype object itself. \<open>JInherited n\<close> is
  the value found at the name \<open>n\<close>, for the twelve names listed below (the
  lookup produces no other); the twelve values are distinct objects, so they are
  equal exactly when their names are. Other objects, symbols and big
  integers (which the declaration \<^verbatim>\<open>default?: any\<close> would also admit) are outside
  this model.

  A number is an IEEE binary64 value. The finite ones are represented by the
  rational they denote, so that the two zeros coincide; that is the equality
  \<^verbatim>\<open>Array.prototype.includes\<close> uses (SameValueZero), which also takes
  \<^verbatim>\<open>NaN\<close> equal to itself. Equality of \<open>jsval\<close> in HOL is therefore the
  equality of \<^verbatim>\<open>includes\<close>, and on strings and booleans that of \<^verbatim>\<open>===\<close>.

  A string is a list of code units below 256 (\<open>char\<close>).
\<close>

datatype jsnum = NaN | Infinity | NegInfinity | Finite rat

datatype jsval =
  JUndefined | JNull | JStr string | JNum jsnum | JBool bool | JInherited string

text \<open>The names of the properties of \<^verbatim>\<open>Object.prototype\<close>.\<close>

definition Object_prototype_names :: "string list" where
  "Object_prototype_names =
     [''constructor'', ''__defineGetter__'', ''__defineSetter__'', ''hasOwnProperty'',
      ''__lookupGetter__'', ''__lookupSetter__'', ''isPrototypeOf'', ''propertyIsEnumerable'',
      ''toString'', ''valueOf'', ''__proto__'', ''toLocaleString'']"

definition isNaN :: "jsnum \<Rightarrow> bool" where
  "isNaN num = (num = NaN)"

text \<open>\<^verbatim>\<open>value == null\<close> holds of \<^verbatim>\<open>null\<close> and \<^verbatim>\<open>undefined\<close> only.\<close>

definition loose_null :: "jsval \<Rightarrow> bool" where
  "loose_null v = (v = JUndefined \<or> v = JNull)"

subsection \<open>Rounding to binary64\<close>

definition pow2 :: "int \<Rightarrow> rat" where
  "pow2 k = (if 0 \<le> k then 2 ^ nat k else 1 / 2 ^ nat (- k))"

text \<open>Round to the nearest integer, ties to the even one.\<close>

definition round_half_even :: "rat \<Rightarrow> int" where
  "round_half_even x =
     (let f = \<lfloor>x\<rfloor>; d = x - of_int f
      in if d < 1 / 2 then f
         else if 1 / 2 < d then f + 1
         else if even f then f else f + 1)"

text \<open>The number of binary digits of a positive integer.\<close>

function bit_length :: "int \<Rightarrow> int" where
  "bit_length n = (if n \<le> 0 then 0 else 1 + bit_length (n div 2))"
  by pat_completeness auto
termination
  by (relation "measure nat") auto

declare bit_length.simps [simp del]

text \<open>
  The exponent \<open>e\<close> with \<open>2 ^ e \<le> q < 2 ^ (e + 1)\<close> of a positive rational
  \<open>n / d\<close>: the difference of the bit lengths of \<open>n\<close> and \<open>d\<close>, or one less.
\<close>

definition exponent_of :: "rat \<Rightarrow> int" where
  "exponent_of q =
     (let (n, d) = quotient_of q;
          g = bit_length n - bit_length d
      in if q < pow2 g then g - 1 else g)"

text \<open>
  A positive rational rounded to binary64: 53 significant bits, exponents from
  \<open>-1022\<close> (below that the spacing stays \<open>2 ^ -1074\<close>), overflow to infinity.
\<close>

definition round_pos :: "rat \<Rightarrow> jsnum" where
  "round_pos q =
     (let e = max (exponent_of q) (- 1022);
          ulp = pow2 (e - 52);
          r = of_int (round_half_even (q / ulp)) * ulp
      in if pow2 1024 \<le> r then Infinity else Finite r)"

definition neg_num :: "jsnum \<Rightarrow> jsnum" where
  "neg_num x = (case x of NaN \<Rightarrow> NaN | Infinity \<Rightarrow> NegInfinity
                | NegInfinity \<Rightarrow> Infinity | Finite r \<Rightarrow> Finite (- r))"

definition round_double :: "rat \<Rightarrow> jsnum" where
  "round_double q =
     (if q = 0 then Finite 0
      else if 0 < q then round_pos q
      else neg_num (round_pos (- q)))"

subsection \<open>Conversion of a string to a number\<close>

text \<open>
  \<^verbatim>\<open>Number(s)\<close> on a string follows the grammar \<^verbatim>\<open>StringNumericLiteral\<close> of
  ECMAScript: white space is trimmed; the empty text is 0; the text is a decimal
  literal with optional sign, fraction and exponent, or \<^verbatim>\<open>Infinity\<close> with
  optional sign, or an unsigned literal in base 16, 8 or 2; anything else is
  \<^verbatim>\<open>NaN\<close>.
\<close>

definition isWhiteSpace :: "char \<Rightarrow> bool" where
  "isWhiteSpace c = (of_char c \<in> {9, 10, 11, 12, 13, 32, 160 :: int})"

definition trim :: "string \<Rightarrow> string" where
  "trim s = rev (dropWhile isWhiteSpace (rev (dropWhile isWhiteSpace s)))"

definition digit_of :: "char \<Rightarrow> int option" where
  "digit_of c =
     (let n = of_char c :: int
      in if 48 \<le> n \<and> n \<le> 57 then Some (n - 48)
         else if 97 \<le> n \<and> n \<le> 102 then Some (n - 87)
         else if 65 \<le> n \<and> n \<le> 70 then Some (n - 55)
         else None)"

definition is_digit :: "int \<Rightarrow> char \<Rightarrow> bool" where
  "is_digit base c = (case digit_of c of None \<Rightarrow> False | Some d \<Rightarrow> d < base)"

definition digits_value :: "int \<Rightarrow> string \<Rightarrow> int" where
  "digits_value base ds = foldl (\<lambda>acc c. acc * base + the (digit_of c)) 0 ds"

text \<open>The exponent part: nothing, or \<^verbatim>\<open>e\<close> or \<^verbatim>\<open>E\<close>, an optional sign and digits.\<close>

definition exponent_part :: "string \<Rightarrow> int option" where
  "exponent_part s =
     (case s of
        [] \<Rightarrow> Some 0
      | c # t \<Rightarrow>
          if c = CHR ''e'' \<or> c = CHR ''E'' then
            (let (neg, ds) =
                   (case t of
                      [] \<Rightarrow> (False, [])
                    | d # u \<Rightarrow> if d = CHR ''-'' then (True, u)
                               else if d = CHR ''+'' then (False, u)
                               else (False, t))
             in if ds \<noteq> [] \<and> list_all (is_digit 10) ds
                then Some (if neg then - digits_value 10 ds else digits_value 10 ds)
                else None)
          else None)"

definition unsigned_decimal :: "string \<Rightarrow> jsnum" where
  "unsigned_decimal s =
     (if s = ''Infinity'' then Infinity
      else
        let ip = takeWhile (is_digit 10) s;
            r1 = dropWhile (is_digit 10) s;
            dot = (r1 \<noteq> [] \<and> hd r1 = CHR ''.'');
            r2 = (if dot then tl r1 else r1);
            fp = (if dot then takeWhile (is_digit 10) r2 else []);
            r3 = (if dot then dropWhile (is_digit 10) r2 else r2)
        in if ip = [] \<and> fp = [] then NaN
           else
             (case exponent_part r3 of
                None \<Rightarrow> NaN
              | Some ex \<Rightarrow>
                  let m = of_int (digits_value 10 (ip @ fp)) :: rat;
                      k = ex - int (length fp)
                  in round_double (if 0 \<le> k then m * 10 ^ nat k else m / 10 ^ nat (- k))))"

definition non_decimal :: "string \<Rightarrow> jsnum option" where
  "non_decimal s =
     (case s of
        z # p # ds \<Rightarrow>
          if z = CHR ''0'' \<and> p \<in> set ''xXoObB'' then
            (let base = (if p \<in> set ''xX'' then 16 else if p \<in> set ''oO'' then 8 else 2)
             in if ds \<noteq> [] \<and> list_all (is_digit base) ds
                then Some (round_double (of_int (digits_value base ds)))
                else Some NaN)
          else None
      | _ \<Rightarrow> None)"

definition StringToNumber :: "string \<Rightarrow> jsnum" where
  "StringToNumber str =
     (let s = trim str
      in if s = [] then Finite 0
         else
           (case non_decimal s of
              Some n \<Rightarrow> n
            | None \<Rightarrow>
                if hd s = CHR ''-'' then neg_num (unsigned_decimal (tl s))
                else if hd s = CHR ''+'' then unsigned_decimal (tl s)
                else unsigned_decimal s))"

text \<open>
  \<^verbatim>\<open>Number(value)\<close> on the values of the model. An inherited function or the
  prototype object is first turned into a string by its \<^verbatim>\<open>toString\<close>
  (\<^verbatim>\<open>function toString() { [native code] }\<close>, \<^verbatim>\<open>[object Object]\<close>), which is
  no numeric literal.
\<close>

definition Number :: "jsval \<Rightarrow> jsnum" where
  "Number v =
     (case v of
        JUndefined \<Rightarrow> NaN
      | JNull \<Rightarrow> Finite 0
      | JBool b \<Rightarrow> (if b then Finite 1 else Finite 0)
      | JNum n \<Rightarrow> n
      | JStr s \<Rightarrow> StringToNumber s
      | JInherited n \<Rightarrow> NaN)"

section \<open>The schema, the environment and the console\<close>

text \<open>
  One entry of the schema, \<^verbatim>\<open>EnvSchema\<close> in \<^verbatim>\<open>index.d.ts\<close>. An optional field
  that is left out reads as \<^verbatim>\<open>undefined\<close>: \<open>required\<close> and \<open>oneOf\<close> are
  options, and a \<open>default\<close> left out is \<open>JUndefined\<close> (the code tests it with
  \<^verbatim>\<open>=== undefined\<close>).
\<close>

datatype kind = TString | TNumber | TBoolean

record EnvSchema =
  type :: kind
  required :: "bool option"
  default :: jsval
  oneOf :: "jsval list option"

text \<open>
  The schema is the list of its entries in the order in which
  \<^verbatim>\<open>for (const key in schema)\<close> visits them; the keys of an object are distinct.
\<close>

type_synonym schema = "(string \<times> EnvSchema) list"

text \<open>
  Every failure of \<^verbatim>\<open>guard\<close> is one line written with \<^verbatim>\<open>console.error\<close>
  followed by \<^verbatim>\<open>process.exit(1)\<close>. The line is kept as the message's kind with
  the values its template interpolates; the colours of \<^verbatim>\<open>chalk\<close> are left out.
\<close>

datatype failure =
    MissingRequired string
  | MustBeNumber string jsval
  | MustBeOneOf string "jsval list"

datatype console_line =
    ConsoleError failure
  | ConsoleLog string

text \<open>
  What \<^verbatim>\<open>guard\<close> reads and writes outside its argument: the variables of
  \<^verbatim>\<open>process.env\<close>, each a string, and the lines written to the console so far.
\<close>

record world =
  process_env :: "string \<rightharpoonup> string"
  console :: "console_line list"

text \<open>A call either returns the result object or ends the process with a status.\<close>

datatype outcome =
    Returned "string \<rightharpoonup> jsval"
  | Exited nat

section \<open>The body of the loop\<close>

text \<open>\<^verbatim>\<open>rules.required\<close> as a condition: \<^verbatim>\<open>undefined\<close> counts as false.\<close>

definition truthy :: "bool option \<Rightarrow> bool" where
  "truthy b = (b = Some True)"

text \<open>
  \<^verbatim>\<open>process.env[key]\<close>: the string of a variable that is set; for one that is not,
  the value inherited from \<^verbatim>\<open>Object.prototype\<close> if the key names one, and
  \<^verbatim>\<open>undefined\<close> otherwise.
\<close>

definition env_lookup :: "(string \<rightharpoonup> string) \<Rightarrow> string \<Rightarrow> jsval" where
  "env_lookup env key =
     (case env key of
        Some s \<Rightarrow> JStr s
      | None \<Rightarrow> if key \<in> set Object_prototype_names then JInherited key else JUndefined)"

text \<open>
  The block under \<^verbatim>\<open>// Missing check\<close>: an absent or empty value of a required
  key without default ends the process; otherwise the value becomes the default.
\<close>

definition missing_check :: "string \<Rightarrow> EnvSchema \<Rightarrow> jsval \<Rightarrow> failure + jsval" where
  "missing_check key rules value =
     (if loose_null value \<or> value = JStr [] then
        (if truthy (required rules) \<and> default rules = JUndefined
         then Inl (MissingRequired key)
         else Inr (default rules))
      else Inr value)"

text \<open>
  The block under \<^verbatim>\<open>// Type casting\<close>: two conditionals in sequence, each
  skipped when the value is \<^verbatim>\<open>null\<close> or \<^verbatim>\<open>undefined\<close>.
\<close>

definition cast_number :: "string \<Rightarrow> EnvSchema \<Rightarrow> jsval \<Rightarrow> failure + jsval" where
  "cast_number key rules value =
     (if type rules = TNumber \<and> \<not> loose_null value then
        (let num = Number value
         in if isNaN num then Inl (MustBeNumber key value) else Inr (JNum num))
      else Inr value)"

definition cast_boolean :: "EnvSchema \<Rightarrow> jsval \<Rightarrow> jsval" where
  "cast_boolean rules value =
     (if type rules = TBoolean \<and> \<not> loose_null value
      then JBool (value = JStr ''true'' \<or> value = JStr ''1'')
      else value)"

definition type_casting :: "string \<Rightarrow> EnvSchema \<Rightarrow> jsval \<Rightarrow> failure + jsval" where
  "type_casting key rules value =
     (case cast_number key rules value of
        Inl e \<Rightarrow> Inl e
      | Inr v \<Rightarrow> Inr (cast_boolean rules v))"

text \<open>
  The block under \<^verbatim>\<open>// oneOf validation\<close>; \<^verbatim>\<open>includes\<close> is membership
  under the equality of \<open>jsval\<close>. An array is truthy even when empty.
\<close>

definition array_includes :: "jsval list \<Rightarrow> jsval \<Rightarrow> bool" where
  "array_includes xs v = (v \<in> set xs)"

definition oneOf_validation :: "string \<Rightarrow> EnvSchema \<Rightarrow> jsval \<Rightarrow> failure + jsval" where
  "oneOf_validation key rules value =
     (case oneOf rules of
        None \<Rightarrow> Inr value
      | Some xs \<Rightarrow> if \<not> array_includes xs value then Inl (MustBeOneOf key xs) else Inr value)"

text \<open>
  One pass of the loop for \<open>key\<close>, up to the assignment \<^verbatim>\<open>result[key] = value\<close>:
  the value to store, or the failure that ends the process. No operation of the
  body throws on the values of this model, so the \<^verbatim>\<open>catch\<close> branch is never taken.
\<close>

definition guard_key :: "string \<Rightarrow> EnvSchema \<Rightarrow> (string \<rightharpoonup> string) \<Rightarrow> failure + jsval" where
  "guard_key key rules env =
     (case missing_check key rules (env_lookup env key) of
        Inl e \<Rightarrow> Inl e
      | Inr v1 \<Rightarrow>
          (case type_casting key rules v1 of
             Inl e \<Rightarrow> Inl e
           | Inr v2 \<Rightarrow> oneOf_validation key rules v2))"

section \<open>The function guard\<close>

text \<open>
  The assignment \<^verbatim>\<open>result[key] = value\<close> on the object that started as \<^verbatim>\<open>{}\<close>.
  The map holds the object's own properties. Every key gets one, except
  \<^verbatim>\<open>__proto__\<close>: there the assignment runs the setter inherited from
  \<^verbatim>\<open>Object.prototype\<close>, which creates no own property (it can only replace the
  object's prototype, which the map does not record).
\<close>

definition assign :: "(string \<rightharpoonup> jsval) \<Rightarrow> string \<Rightarrow> jsval \<Rightarrow> (string \<rightharpoonup> jsval)" where
  "assign result key value = (if key = ''__proto__'' then result else result(key \<mapsto> value))"

text \<open>
  The loop over the keys of the schema. A failure writes its line and ends the
  process with status 1, and the keys after it are never visited; a success
  assigns the value at the key and writes the line
  \<^verbatim>\<open>key loaded successfully\<close>. The call \<^verbatim>\<open>dotenv.config()\<close> at the top of the
  module runs once when the module is loaded, before any call of \<^verbatim>\<open>guard\<close>;
  \<^verbatim>\<open>guard\<close> itself reads \<^verbatim>\<open>process.env\<close> and never writes it.
\<close>

fun guard_loop :: "schema \<Rightarrow> (string \<rightharpoonup> jsval) \<Rightarrow> world \<Rightarrow> outcome \<times> world" where
  "guard_loop [] result w = (Returned result, w)"
| "guard_loop ((key, rules) # rest) result w =
     (case guard_key key rules (process_env w) of
        Inl e \<Rightarrow> (Exited 1, w\<lparr>console := console w @ [ConsoleError e]\<rparr>)
      | Inr value \<Rightarrow>
          guard_loop rest (assign result key value)
            (w\<lparr>console := console w @ [ConsoleLog key]\<rparr>))"

definition guard :: "schema \<Rightarrow> world \<Rightarrow> outcome \<times> world" where
  "guard schema w = guard_loop schema Map.empty w"

section \<open>Notions used to state the properties\<close>


text \<open>An entry of the schema passes in an environment.\<close>

definition accepted :: "(string \<rightharpoonup> string) \<Rightarrow> string \<times> EnvSchema \<Rightarrow> bool" where
  "accepted env entry = (\<not> isl (guard_key (fst entry) (snd entry) env))"

text \<open>
  The rule \<^verbatim>\<open>{ type: "number", required: true }\<close> of the README's first example,
  and a process with no variables and nothing written yet.
\<close>

definition required_number :: EnvSchema where
  "required_number = \<lparr>type = TNumber, required = Some True, default = JUndefined, oneOf = None\<rparr>"

definition empty_world :: world where
  "empty_world = \<lparr>process_env = Map.empty, console = []\<rparr>"

section \<open>Facts about the conversion to a number\<close>

text \<open>
  The exponent that the rounding uses is the binary exponent of its argument.
\<close>

lemma bit_length_pos: "0 < n \<Longrightarrow> 0 < bit_length n"
proof (induction n rule: bit_length.induct)
  case (1 n)
  show ?case
  proof (cases "0 < n div 2")
    case True
    with "1.IH" "1.prems" have "0 < bit_length (n div 2)" by simp
    with "1.prems" show ?thesis by (subst bit_length.simps) simp
  next
    case False
    then have "bit_length (n div 2) = 0" by (subst bit_length.simps) simp
    with "1.prems" show ?thesis by (subst bit_length.simps) simp
  qed
qed

lemma bit_length_bounds:
  "0 < n \<Longrightarrow> 2 ^ nat (bit_length n - 1) \<le> n \<and> n < 2 ^ nat (bit_length n)"
proof (induction n rule: bit_length.induct)
  case (1 n)
  have bl: "bit_length n = 1 + bit_length (n div 2)"
    using "1.prems" by (subst bit_length.simps) simp
  show ?case
  proof (cases "n = 1")
    case True
    then show ?thesis by (simp add: bit_length.simps [of 1] bit_length.simps [of 0])
  next
    case False
    with "1.prems" have half: "0 < n div 2" by simp
    with "1.IH" "1.prems" have ih: "2 ^ nat (bit_length (n div 2) - 1) \<le> n div 2"
      "n div 2 < 2 ^ nat (bit_length (n div 2))" by simp_all
    from bit_length_pos [OF half] obtain k where k: "nat (bit_length (n div 2)) = Suc k"
      by (cases "nat (bit_length (n div 2))") auto
    then have k': "nat (bit_length (n div 2) - 1) = k" by simp
    have "nat (bit_length n - 1) = Suc k" "nat (bit_length n) = Suc (Suc k)"
      using k by (simp_all add: bl)
    moreover define P :: int where "P = 2 ^ k"
    moreover from ih have "P \<le> n div 2" "n div 2 < 2 * P" by (simp_all add: k k' P_def)
    then have "2 * P \<le> n \<and> n < 4 * P" by arith
    ultimately show ?thesis by simp
  qed
qed

lemma pow2_powi: "pow2 k = 2 powi k"
  by (simp add: pow2_def power_int_def field_simps)

lemma exponent_of_bounds:
  assumes "0 < q"
  shows "pow2 (exponent_of q) \<le> q \<and> q < pow2 (exponent_of q + 1)"
proof -
  obtain n d where nd: "quotient_of q = (n, d)" by (cases "quotient_of q")
  then have d: "0 < d" and q: "q = of_int n / of_int d"
    using quotient_of_denom_pos quotient_of_div by blast+
  with assms have n: "0 < n" by (simp add: zero_less_divide_iff)
  let ?a = "bit_length n" and ?b = "bit_length d"
  have bounds: "2 powi (bit_length m - 1) \<le> (of_int m :: rat) \<and> (of_int m :: rat) < 2 powi bit_length m"
    if "0 < m" for m
  proof -
    from bit_length_pos [OF that] have "0 \<le> bit_length m - 1" "0 \<le> bit_length m" by simp_all
    then have "(2::rat) powi (bit_length m - 1) = of_int (2 ^ nat (bit_length m - 1))"
      "(2::rat) powi bit_length m = of_int (2 ^ nat (bit_length m))"
      by (simp_all add: power_int_def)
    with bit_length_bounds [OF that] show ?thesis
      by (metis of_int_le_iff of_int_less_iff)
  qed
  let ?g = "bit_length n - bit_length d"
  from bounds [OF n] bounds [OF d]
  have na: "2 powi (bit_length n - 1) \<le> (of_int n :: rat)" "(of_int n :: rat) < 2 powi bit_length n"
    and da: "2 powi (bit_length d - 1) \<le> (of_int d :: rat)" "(of_int d :: rat) < 2 powi bit_length d"
    by simp_all
  have pos: "0 < (2::rat) powi k" for k by simp
  have "q < 2 powi bit_length n / 2 powi (bit_length d - 1)"
    unfolding q using n na(2) pos da(1) by (intro frac_less) simp_all
  also have "\<dots> = 2 powi (?g + 1)"
    by (simp add: power_int_diff [symmetric] algebra_simps)
  finally have upper: "q < pow2 (?g + 1)" by (simp add: pow2_powi)
  have "(2::rat) powi (?g - 1) = 2 powi (bit_length n - 1) / 2 powi bit_length d"
    by (simp add: power_int_diff [symmetric] algebra_simps)
  also have "\<dots> < q"
    unfolding q using d na(1) pos da(2) by (intro frac_less2) simp_all
  finally have lower: "pow2 (?g - 1) < q" by (simp add: pow2_powi)
  show ?thesis
  proof (cases "q < pow2 ?g")
    case True
    with lower show ?thesis by (simp add: exponent_of_def nd)
  next
    case False
    with upper show ?thesis by (simp add: exponent_of_def nd)
  qed
qed

text \<open>Three conversions, evaluated.\<close>

lemma Number_Infinity: "Number (JStr ''Infinity'') = Infinity"
  by code_simp

lemma Number_2: "Number (JStr ''2'') = Finite 2"
  by code_simp

lemma Number_abc: "Number (JStr ''abc'') = NaN"
  by code_simp

section \<open>Facts about the loop body\<close>

lemmas guard_key_defs =
  guard_key_def missing_check_def env_lookup_def Object_prototype_names_def loose_null_def
  truthy_def type_casting_def cast_number_def cast_boolean_def oneOf_validation_def
  array_includes_def isNaN_def

lemma proto_is_inherited: "''__proto__'' \<in> set Object_prototype_names"
  by (simp add: Object_prototype_names_def)

lemma guard_key_cong:
  "env1 key = env2 key \<Longrightarrow> guard_key key rules env1 = guard_key key rules env2"
  by (simp add: guard_key_def env_lookup_def)

lemma guard_key_absent:
  "env key = Some [] \<or> env key = None \<and> key \<notin> set Object_prototype_names \<Longrightarrow>
   guard_key key rules env =
     (if truthy (required rules) \<and> default rules = JUndefined then Inl (MissingRequired key)
      else case type_casting key rules (default rules) of
             Inl e \<Rightarrow> Inl e
           | Inr v \<Rightarrow> oneOf_validation key rules v)"
  by (auto simp: guard_key_def missing_check_def env_lookup_def loose_null_def)

lemma guard_key_present:
  "env key = Some s \<Longrightarrow> s \<noteq> [] \<Longrightarrow>
   guard_key key rules env =
     (case type_casting key rules (JStr s) of
        Inl e \<Rightarrow> Inl e
      | Inr v \<Rightarrow> oneOf_validation key rules v)"
  by (simp add: guard_key_def missing_check_def env_lookup_def loose_null_def)

lemma guard_key_number_not_NaN:
  "type rules = TNumber \<Longrightarrow> guard_key key rules env = Inr v \<Longrightarrow> v \<noteq> JNum NaN"
  by (auto simp: guard_key_defs Let_def split: if_splits option.splits)

lemma guard_key_unset_inherited:
  "env key = None \<Longrightarrow> key \<in> set Object_prototype_names \<Longrightarrow>
   guard_key key rules env =
     (case type_casting key rules (JInherited key) of
        Inl e \<Rightarrow> Inl e
      | Inr v \<Rightarrow> oneOf_validation key rules v)"
  by (simp add: guard_key_def missing_check_def env_lookup_def loose_null_def)


section \<open>Facts about the loop\<close>

lemma accepted_entry [simp]:
  "accepted env (key, rules) = (\<not> isl (guard_key key rules env))"
  by (simp add: accepted_def)





lemma guard_loop_returned_lookup:
  "guard_loop schema result w = (Returned r, w') \<Longrightarrow> key \<notin> fst ` set schema \<Longrightarrow> r key = result key"
proof (induction schema arbitrary: result w)
  case Nil
  then show ?case by simp
next
  case (Cons entry rest)
  obtain k rs where entry: "entry = (k, rs)" by (cases entry)
  from Cons.prems(1) obtain v where
    "guard_loop rest (assign result k v) (w\<lparr>console := console w @ [ConsoleLog k]\<rparr>) = (Returned r, w')"
    by (auto simp: entry split: sum.splits)
  moreover from Cons.prems(2) have "key \<notin> fst ` set rest" and "key \<noteq> k" by (auto simp: entry)
  ultimately have "r key = assign result k v key" by (intro Cons.IH)
  with \<open>key \<noteq> k\<close> show ?case by (simp add: assign_def)
qed

lemma guard_loop_returned_dom:
  "guard_loop schema result w = (Returned r, w') \<Longrightarrow> dom r \<subseteq> dom result \<union> fst ` set schema"
proof (induction schema arbitrary: result w)
  case Nil
  then show ?case by simp
next
  case (Cons entry rest)
  obtain k rs where entry: "entry = (k, rs)" by (cases entry)
  from Cons.prems obtain v where
    "guard_loop rest (assign result k v) (w\<lparr>console := console w @ [ConsoleLog k]\<rparr>) = (Returned r, w')"
    by (auto simp: entry split: sum.splits)
  then have "dom r \<subseteq> dom (assign result k v) \<union> fst ` set rest" by (rule Cons.IH)
  then show ?case by (auto simp: entry assign_def split: if_splits)
qed

text \<open>
  What a returned object holds at a key of the schema: the value that the loop
  body produced for the key, except at \<^verbatim>\<open>__proto__\<close>, where nothing is stored.
\<close>

lemma guard_loop_returned_value:
  "guard_loop schema result w = (Returned r, w') \<Longrightarrow> distinct (map fst schema) \<Longrightarrow>
   (key, rules) \<in> set schema \<Longrightarrow>
   \<exists>v. guard_key key rules (process_env w) = Inr v \<and>
       r key = (if key = ''__proto__'' then result key else Some v)"
proof (induction schema arbitrary: result w)
  case Nil
  then show ?case by simp
next
  case (Cons entry rest)
  obtain k rs where entry: "entry = (k, rs)" by (cases entry)
  from Cons.prems(1) obtain v where
    v: "guard_key k rs (process_env w) = Inr v" and
    rest: "guard_loop rest (assign result k v) (w\<lparr>console := console w @ [ConsoleLog k]\<rparr>) = (Returned r, w')"
    by (auto simp: entry split: sum.splits)
  show ?case
  proof (cases "(key, rules) = (k, rs)")
    case True
    from Cons.prems(2) have "k \<notin> fst ` set rest" by (simp add: entry)
    from guard_loop_returned_lookup [OF rest this] have "r k = assign result k v k" .
    with True v show ?thesis by (simp add: assign_def)
  next
    case False
    with Cons.prems(3) have in_rest: "(key, rules) \<in> set rest" by (auto simp: entry)
    moreover from Cons.prems(2) have "distinct (map fst rest)" by simp
    ultimately obtain u where
      u: "guard_key key rules (process_env w) = Inr u"
        "r key = (if key = ''__proto__'' then assign result k v key else Some u)"
      using Cons.IH [OF rest] by auto
    from in_rest Cons.prems(2) have "key \<noteq> k" by (force simp: entry)
    with u show ?thesis by (auto simp: assign_def)
  qed
qed

lemma guard_loop_agree:
  "(\<forall>entry \<in> set schema. guard_key (fst entry) (snd entry) (process_env w1)
       = guard_key (fst entry) (snd entry) (process_env w2)) \<Longrightarrow>
   fst (guard_loop schema result w1) = fst (guard_loop schema result w2) \<and>
   (\<exists>out. console (snd (guard_loop schema result w1)) = console w1 @ out \<and>
          console (snd (guard_loop schema result w2)) = console w2 @ out)"
proof (induction schema arbitrary: result w1 w2)
  case Nil
  then show ?case by simp
next
  case (Cons entry rest)
  obtain key rules where entry: "entry = (key, rules)" by (cases entry)
  from Cons.prems have same: "guard_key key rules (process_env w1) = guard_key key rules (process_env w2)"
    by (simp add: entry)
  show ?case
  proof (cases "guard_key key rules (process_env w1)")
    case (Inl e)
    with same have "guard_key key rules (process_env w2) = Inl e" by simp
    with Inl show ?thesis by (simp add: entry)
  next
    case (Inr v)
    let ?w1 = "w1\<lparr>console := console w1 @ [ConsoleLog key]\<rparr>"
    let ?w2 = "w2\<lparr>console := console w2 @ [ConsoleLog key]\<rparr>"
    let ?res = "assign result key v"
    have "fst (guard_loop rest ?res ?w1) = fst (guard_loop rest ?res ?w2) \<and>
      (\<exists>out. console (snd (guard_loop rest ?res ?w1)) = console ?w1 @ out \<and>
             console (snd (guard_loop rest ?res ?w2)) = console ?w2 @ out)"
      using Cons.prems by (intro Cons.IH) simp
    then obtain out where
      "fst (guard_loop rest ?res ?w1) = fst (guard_loop rest ?res ?w2)"
      "console (snd (guard_loop rest ?res ?w1)) = console w1 @ ConsoleLog key # out"
      "console (snd (guard_loop rest ?res ?w2)) = console w2 @ ConsoleLog key # out"
      by auto
    moreover from Inr same have "guard_key key rules (process_env w2) = Inr v" by simp
    ultimately show ?thesis using Inr by (simp add: entry)
  qed
qed

section \<open>Failures: the first one ends the process\<close>




section \<open>Defaults\<close>

text \<open>
  Claim C2 says that an absent key with a default is accepted with exactly the
  default, no coercion applied. The README gives
  \<^verbatim>\<open>ENABLE_CACHING: { type: "boolean", default: true }\<close> as an example and
  describes \<^verbatim>\<open>default\<close> as the fallback value when the variable is missing. On
  that rule, with the variable unset, \<^verbatim>\<open>guard\<close> casts the default as if it were a
  raw string: \<^verbatim>\<open>true === "true"\<close> is false, and the stored value is \<^verbatim>\<open>false\<close>.
\<close>

theorem guard_boolean_default_true:
  "guard [(''ENABLE_CACHING'', \<lparr>type = TBoolean, required = None, default = JBool True, oneOf = None\<rparr>)]
     empty_world
   = (Returned [''ENABLE_CACHING'' \<mapsto> JBool False],
      empty_world\<lparr>console := [ConsoleLog ''ENABLE_CACHING'']\<rparr>)"
  by (simp add: guard_def guard_key_defs assign_def empty_world_def)




section \<open>Absent optional keys\<close>

text \<open>
  Claim C3, as the specification states it: a key that is absent, not required
  and without default produces no error and is left out of the result, for
  every rule shape, \<^verbatim>\<open>oneOf\<close> included. In \<^verbatim>\<open>guard\<close> the assignment
  \<^verbatim>\<open>result[key] = value\<close> is unconditional, so the key is in the returned object,
  bound to \<^verbatim>\<open>undefined\<close>; with a \<^verbatim>\<open>oneOf\<close> list the value \<^verbatim>\<open>undefined\<close>
  fails the membership test and the process ends; and an unset key that names a
  property of \<^verbatim>\<open>Object.prototype\<close> is read as the inherited value, which for a
  number rule ends the process on the must-be-a-number line.
\<close>

theorem guard_keeps_absent_optional_key:
  "guard [(''LOG_LEVEL'', \<lparr>type = TString, required = None, default = JUndefined, oneOf = None\<rparr>)]
     empty_world
   = (Returned [''LOG_LEVEL'' \<mapsto> JUndefined], empty_world\<lparr>console := [ConsoleLog ''LOG_LEVEL'']\<rparr>)
   \<and> guard [(''LOG_LEVEL'', \<lparr>type = TString, required = None, default = JUndefined,
                 oneOf = Some [JStr ''info'', JStr ''warn'']\<rparr>)]
     empty_world
   = (Exited 1, empty_world\<lparr>console :=
        [ConsoleError (MustBeOneOf ''LOG_LEVEL'' [JStr ''info'', JStr ''warn''])]\<rparr>)
   \<and> guard [(''constructor'', \<lparr>type = TNumber, required = None, default = JUndefined, oneOf = None\<rparr>)]
     empty_world
   = (Exited 1, empty_world\<lparr>console :=
        [ConsoleError (MustBeNumber ''constructor'' (JInherited ''constructor''))]\<rparr>)"
  by (simp add: guard_def guard_key_defs assign_def Number_def empty_world_def)

text \<open>
  Claim C3, amended: a key that is absent to \<^verbatim>\<open>guard\<close> (set to the empty string
  and other than \<^verbatim>\<open>__proto__\<close>, or unset and not the name of a property of
  \<^verbatim>\<open>Object.prototype\<close>), not required, without default and without \<^verbatim>\<open>oneOf\<close>
  produces no error, and when \<^verbatim>\<open>guard\<close> returns, the returned object holds the
  key, bound to \<^verbatim>\<open>undefined\<close>.
\<close>

theorem absent_optional_key_is_undefined:
  assumes "distinct (map fst schema)" and "(key, rules) \<in> set schema"
    and "process_env w key = Some [] \<and> key \<noteq> ''__proto__'' \<or>
         process_env w key = None \<and> key \<notin> set Object_prototype_names"
    and "\<not> truthy (required rules)" and "default rules = JUndefined" and "oneOf rules = None"
  shows "guard_key key rules (process_env w) = Inr JUndefined \<and>
         (\<forall>r w'. guard schema w = (Returned r, w') \<longrightarrow> r key = Some JUndefined)"
proof -
  from assms(3) have absent: "process_env w key = Some [] \<or>
      process_env w key = None \<and> key \<notin> set Object_prototype_names"
    and stored: "key \<noteq> ''__proto__''"
    using proto_is_inherited by auto
  have passes: "guard_key key rules (process_env w) = Inr JUndefined"
    using assms(4-6)
    by (simp add: guard_key_absent [where env = "process_env w", OF absent] type_casting_def
        cast_number_def cast_boolean_def loose_null_def oneOf_validation_def)
  have "r key = Some JUndefined" if "guard schema w = (Returned r, w')" for r w'
    using guard_loop_returned_value [OF that [unfolded guard_def] assms(1,2)] passes stored by auto
  with passes show ?thesis by blast
qed

text \<open>
  Claim C3, amended, on an optional number whose variable is set to the empty
  string: \<^verbatim>\<open>guard\<close> returns, and the object has the key with \<^verbatim>\<open>undefined\<close>.
\<close>

theorem absent_optional_key_is_undefined_witness:
  "guard_key ''LOG_LEVEL'' \<lparr>type = TNumber, required = Some False, default = JUndefined, oneOf = None\<rparr>
     [''LOG_LEVEL'' \<mapsto> []] = Inr JUndefined
   \<and> guard [(''LOG_LEVEL'', \<lparr>type = TNumber, required = Some False, default = JUndefined, oneOf = None\<rparr>)]
         \<lparr>process_env = [''LOG_LEVEL'' \<mapsto> []], console = []\<rparr>
     = (Returned [''LOG_LEVEL'' \<mapsto> JUndefined],
        \<lparr>process_env = [''LOG_LEVEL'' \<mapsto> []], console = [ConsoleLog ''LOG_LEVEL'']\<rparr>)"
proof -
  let ?rules = "\<lparr>type = TNumber, required = Some False, default = JUndefined, oneOf = None\<rparr>"
  let ?w = "\<lparr>process_env = [''LOG_LEVEL'' \<mapsto> []], console = []\<rparr>"
  from absent_optional_key_is_undefined [of "[(''LOG_LEVEL'', ?rules)]" "''LOG_LEVEL''" ?rules ?w]
  have passes: "guard_key ''LOG_LEVEL'' ?rules [''LOG_LEVEL'' \<mapsto> []] = Inr JUndefined"
    by (simp add: truthy_def)
  then show ?thesis by (simp add: guard_def assign_def)
qed

section \<open>Type casting\<close>

text \<open>
  Claim C4: for a boolean key whose variable holds a non-empty string, the
  casting never fails: the strings \<^verbatim>\<open>"true"\<close> and \<^verbatim>\<open>"1"\<close> give \<^verbatim>\<open>true\<close> and
  every other string gives \<^verbatim>\<open>false\<close>. The value then goes to the \<^verbatim>\<open>oneOf\<close>
  check, and without a \<^verbatim>\<open>oneOf\<close> list the key is accepted with it.
\<close>

theorem boolean_coercion_never_fails:
  assumes "type rules = TBoolean" and "env key = Some s" and "s \<noteq> []"
  shows "type_casting key rules (JStr s) = Inr (JBool (s = ''true'' \<or> s = ''1'')) \<and>
         guard_key key rules env = oneOf_validation key rules (JBool (s = ''true'' \<or> s = ''1'')) \<and>
         (oneOf rules = None \<longrightarrow> guard_key key rules env = Inr (JBool (s = ''true'' \<or> s = ''1'')))"
proof -
  have cast: "type_casting key rules (JStr s) = Inr (JBool (s = ''true'' \<or> s = ''1''))"
    using assms(1) by (simp add: type_casting_def cast_number_def cast_boolean_def loose_null_def)
  with assms(2,3)
  have "guard_key key rules env = oneOf_validation key rules (JBool (s = ''true'' \<or> s = ''1''))"
    by (simp add: guard_key_present)
  with cast show ?thesis by (simp add: oneOf_validation_def)
qed

text \<open>Claim C4 on the raw strings \<^verbatim>\<open>"yes"\<close> and \<^verbatim>\<open>"1"\<close>.\<close>

theorem boolean_coercion_never_fails_witness:
  "guard_key ''DEBUG'' \<lparr>type = TBoolean, required = Some True, default = JUndefined, oneOf = None\<rparr>
     [''DEBUG'' \<mapsto> ''yes''] = Inr (JBool False)
   \<and> guard_key ''DEBUG'' \<lparr>type = TBoolean, required = Some True, default = JUndefined, oneOf = None\<rparr>
     [''DEBUG'' \<mapsto> ''1''] = Inr (JBool True)"
  using boolean_coercion_never_fails
    [where rules = "\<lparr>type = TBoolean, required = Some True, default = JUndefined, oneOf = None\<rparr>"
       and env = "[''DEBUG'' \<mapsto> ''yes'']" and key = "''DEBUG''" and s = "''yes''"]
    boolean_coercion_never_fails
    [where rules = "\<lparr>type = TBoolean, required = Some True, default = JUndefined, oneOf = None\<rparr>"
       and env = "[''DEBUG'' \<mapsto> ''1'']" and key = "''DEBUG''" and s = "''1''"]
  by (simp add: oneOf_validation_def)

text \<open>
  Claim C5, as the specification states it: a raw string that does not parse to
  a finite number is a type mismatch, so a number entry of the result is never
  \<^verbatim>\<open>NaN\<close> and never infinite. The test in \<^verbatim>\<open>guard\<close> is \<^verbatim>\<open>isNaN(num)\<close>, which
  lets the infinities through: the raw string \<^verbatim>\<open>"Infinity"\<close> is accepted and the
  entry is infinite.
\<close>

theorem guard_accepts_Infinity:
  "guard [(''PORT'', required_number)] \<lparr>process_env = [''PORT'' \<mapsto> ''Infinity''], console = []\<rparr>
   = (Returned [''PORT'' \<mapsto> JNum Infinity],
      \<lparr>process_env = [''PORT'' \<mapsto> ''Infinity''], console = [ConsoleLog ''PORT'']\<rparr>)"
  by (simp add: guard_def guard_key_defs assign_def required_number_def Number_Infinity)

text \<open>
  Claim C5, amended: for a number key whose variable holds a non-empty string,
  the string is converted with \<^verbatim>\<open>Number\<close>; if the conversion is \<^verbatim>\<open>NaN\<close> the
  key fails with the must-be-a-number line, and a key that passes holds the
  converted number. So a number entry of the returned object is never \<^verbatim>\<open>NaN\<close>
  (it can be infinite).
\<close>

theorem number_entry_never_NaN:
  assumes "distinct (map fst schema)" and "(key, rules) \<in> set schema" and "type rules = TNumber"
  shows "(\<forall>s. process_env w key = Some s \<and> s \<noteq> [] \<longrightarrow>
            (Number (JStr s) = NaN \<longrightarrow>
               guard_key key rules (process_env w) = Inl (MustBeNumber key (JStr s))) \<and>
            (\<forall>v. guard_key key rules (process_env w) = Inr v \<longrightarrow> v = JNum (Number (JStr s)))) \<and>
         (\<forall>r w'. guard schema w = (Returned r, w') \<longrightarrow> r key \<noteq> Some (JNum NaN))"
proof -
  have present: "(Number (JStr s) = NaN \<longrightarrow>
               guard_key key rules (process_env w) = Inl (MustBeNumber key (JStr s))) \<and>
            (\<forall>v. guard_key key rules (process_env w) = Inr v \<longrightarrow> v = JNum (Number (JStr s)))"
    if "process_env w key = Some s" and "s \<noteq> []" for s
    using assms(3)
    by (auto simp: guard_key_present [where env = "process_env w", OF that] type_casting_def
        cast_number_def cast_boolean_def loose_null_def isNaN_def oneOf_validation_def Let_def
        split: option.splits if_splits)
  have "r key \<noteq> Some (JNum NaN)" if "guard schema w = (Returned r, w')" for r w'
  proof -
    from guard_loop_returned_value [OF that [unfolded guard_def] assms(1,2)]
    obtain v where "guard_key key rules (process_env w) = Inr v"
      and "r key = (if key = ''__proto__'' then None else Some v)"
      by auto
    with guard_key_number_not_NaN [OF assms(3), of key "process_env w" v]
    show ?thesis by (auto split: if_splits)
  qed
  with present show ?thesis by blast
qed

text \<open>
  Claim C5, amended, on the raw strings \<^verbatim>\<open>"abc"\<close>, which fails, and \<^verbatim>\<open>"2"\<close>,
  which is stored as the number 2.
\<close>

theorem number_entry_never_NaN_witness:
  "guard_key ''PORT'' required_number [''PORT'' \<mapsto> ''abc'']
     = Inl (MustBeNumber ''PORT'' (JStr ''abc''))
   \<and> guard_key ''PORT'' required_number [''PORT'' \<mapsto> ''2''] = Inr (JNum (Finite 2))
   \<and> guard [(''PORT'', required_number)] \<lparr>process_env = [''PORT'' \<mapsto> ''2''], console = []\<rparr>
     = (Returned [''PORT'' \<mapsto> JNum (Finite 2)],
        \<lparr>process_env = [''PORT'' \<mapsto> ''2''], console = [ConsoleLog ''PORT'']\<rparr>)"
proof -
  from number_entry_never_NaN
    [of "[(''PORT'', required_number)]" "''PORT''" required_number
        "\<lparr>process_env = [''PORT'' \<mapsto> ''abc''], console = []\<rparr>"]
  have fails: "guard_key ''PORT'' required_number [''PORT'' \<mapsto> ''abc'']
     = Inl (MustBeNumber ''PORT'' (JStr ''abc''))"
    by (simp add: required_number_def Number_abc)
  have passes: "guard_key ''PORT'' required_number [''PORT'' \<mapsto> ''2''] = Inr (JNum (Finite 2))"
    by (simp add: guard_key_defs required_number_def Number_2)
  from fails passes show ?thesis by (simp add: guard_def assign_def)
qed

section \<open>The oneOf check\<close>

text \<open>
  Claim C6: for a key whose variable holds a non-empty string and whose rule has
  a \<^verbatim>\<open>oneOf\<close> list, membership is tested on the value after the type casting,
  not on the raw string: the key is accepted with the cast value exactly when
  that value is a member of the list, and rejected otherwise.
\<close>

theorem oneOf_checked_after_coercion:
  assumes "env key = Some s" and "s \<noteq> []" and "oneOf rules = Some xs"
    and "type_casting key rules (JStr s) = Inr v"
  shows "guard_key key rules env = (if v \<in> set xs then Inr v else Inl (MustBeOneOf key xs))"
  using assms by (simp add: guard_key_present oneOf_validation_def array_includes_def)

text \<open>
  Claim C6 on the rule \<^verbatim>\<open>{ type: "number", oneOf: [1, 2, 3] }\<close> and the raw
  string \<^verbatim>\<open>"2"\<close>: the cast value is the number 2 and the key is accepted.
\<close>

theorem oneOf_checked_after_coercion_witness:
  "type_casting ''LEVEL''
     \<lparr>type = TNumber, required = None, default = JUndefined,
       oneOf = Some [JNum (Finite 1), JNum (Finite 2), JNum (Finite 3)]\<rparr> (JStr ''2'')
     = Inr (JNum (Finite 2))
   \<and> guard_key ''LEVEL''
     \<lparr>type = TNumber, required = None, default = JUndefined,
       oneOf = Some [JNum (Finite 1), JNum (Finite 2), JNum (Finite 3)]\<rparr> [''LEVEL'' \<mapsto> ''2'']
     = Inr (JNum (Finite 2))"
proof -
  let ?rules = "\<lparr>type = TNumber, required = None, default = JUndefined,
       oneOf = Some [JNum (Finite 1), JNum (Finite 2), JNum (Finite 3)]\<rparr>"
  have cast: "type_casting ''LEVEL'' ?rules (JStr ''2'') = Inr (JNum (Finite 2))"
    by (simp add: type_casting_def cast_number_def cast_boolean_def loose_null_def isNaN_def Number_2)
  from oneOf_checked_after_coercion
    [where env = "[''LEVEL'' \<mapsto> ''2'']" and key = "''LEVEL''" and s = "''2''" and rules = ?rules
       and xs = "[JNum (Finite 1), JNum (Finite 2), JNum (Finite 3)]", OF _ _ _ cast]
  have "guard_key ''LEVEL'' ?rules [''LEVEL'' \<mapsto> ''2''] = Inr (JNum (Finite 2))"
    by simp
  with cast show ?thesis by simp
qed

section \<open>What the result depends on\<close>






text \<open>
  Claim C10: variables that the schema does not declare have no influence. Two
  environments that agree on every key of the schema give the same outcome, and
  every key of a returned object is a key of the schema.
\<close>

theorem undeclared_variables_ignored:
  assumes "\<forall>key \<in> fst ` set schema. process_env w1 key = process_env w2 key"
  shows "fst (guard schema w1) = fst (guard schema w2) \<and>
         (\<forall>r. fst (guard schema w1) = Returned r \<longrightarrow> dom r \<subseteq> fst ` set schema)"
proof -
  from assms have "\<forall>entry \<in> set schema. guard_key (fst entry) (snd entry) (process_env w1)
       = guard_key (fst entry) (snd entry) (process_env w2)"
    by (auto intro: guard_key_cong)
  from guard_loop_agree [OF this, of Map.empty]
  have same: "fst (guard schema w1) = fst (guard schema w2)"
    by (simp add: guard_def)
  have "dom r \<subseteq> fst ` set schema" if "fst (guard schema w1) = Returned r" for r
  proof -
    from that obtain w' where "guard_loop schema Map.empty w1 = (Returned r, w')"
      by (cases "guard_loop schema Map.empty w1") (simp add: guard_def)
    from guard_loop_returned_dom [OF this] show ?thesis by simp
  qed
  with same show ?thesis by blast
qed

text \<open>
  Claim C10 on the README's \<^verbatim>\<open>NODE_ENV\<close> rule, in an environment with an
  undeclared variable \<^verbatim>\<open>HOME\<close> and in one without it.
\<close>

theorem undeclared_variables_ignored_witness:
  "fst (guard [(''NODE_ENV'', \<lparr>type = TString, required = Some True, default = JUndefined,
                  oneOf = Some [JStr ''development'', JStr ''production'', JStr ''test'']\<rparr>)]
          \<lparr>process_env = [''NODE_ENV'' \<mapsto> ''test'', ''HOME'' \<mapsto> ''/root''], console = []\<rparr>)
     = Returned [''NODE_ENV'' \<mapsto> JStr ''test'']
   \<and> fst (guard [(''NODE_ENV'', \<lparr>type = TString, required = Some True, default = JUndefined,
                  oneOf = Some [JStr ''development'', JStr ''production'', JStr ''test'']\<rparr>)]
          \<lparr>process_env = [''NODE_ENV'' \<mapsto> ''test''], console = []\<rparr>)
     = Returned [''NODE_ENV'' \<mapsto> JStr ''test'']"
proof -
  let ?schema = "[(''NODE_ENV'', \<lparr>type = TString, required = Some True, default = JUndefined,
                  oneOf = Some [JStr ''development'', JStr ''production'', JStr ''test'']\<rparr>)]"
  let ?w1 = "\<lparr>process_env = [''NODE_ENV'' \<mapsto> ''test'', ''HOME'' \<mapsto> ''/root''], console = []\<rparr>"
  let ?w2 = "\<lparr>process_env = [''NODE_ENV'' \<mapsto> ''test''], console = []\<rparr>"
  have first: "fst (guard ?schema ?w1) = Returned [''NODE_ENV'' \<mapsto> JStr ''test'']"
    by (simp add: guard_def guard_key_defs assign_def)
  from undeclared_variables_ignored [of ?schema ?w1 ?w2] first
  show ?thesis by simp
qed

end
